theory Spec2Isabelle
  imports Main
begin

section \<open>Python values and exceptions\<close>

text \<open>
  The repository is Python: \<open>src/src/model.py\<close> (the body of the fine-tuning
  component, \<open>fine_tune_model\<close>, with its nested functions) and \<open>src/pipeline.py\<close>
  (the pipeline definition). Every exception the code can raise is a value of \<open>error\<close>; a
  function that may raise returns \<open>error + 'a\<close> with \<open>Inl\<close> for the exception.

  Calls into the libraries (transformers, datasets, pandas, json, kfp) are parameters of
  the definitions. Calls to \<open>logging.debug\<close> and \<open>get_memory_usage\<close> compute nothing
  the program uses and are left out.
\<close>

datatype error =
    NameError string
  | KeyError string
  | IndexError
  | TypeError
  | ValueError
  | RuntimeError "int list" "int list"
  | LibraryError string

section \<open>The completion-only data collator\<close>

text \<open>
  \<open>model.py\<close>, lines 30 to 34: the keys of the prompt.
\<close>

definition INSTRUCTION_KEY :: string where
  "INSTRUCTION_KEY = ''### Instruction:''"

definition INPUT_KEY :: string where
  "INPUT_KEY = ''Input:''"

definition RESPONSE_KEY :: string where
  "RESPONSE_KEY = ''### Response:''"

definition END_KEY :: string where
  "END_KEY = ''### End''"

definition RESPONSE_KEY_NL :: string where
  "RESPONSE_KEY_NL = RESPONSE_KEY @ [CHR 0x0A]"

text \<open>
  A batch is what the parent collator returns: a dictionary of tensors. Only its
  \<open>labels\<close> entry is read and written here, a two-dimensional tensor given as the list
  of its rows; the other entries are the record's extension.
\<close>

record batch =
  labels :: "int list list"

text \<open>
  \<open>np.where(row == t)[0]\<close>: the indices at which the row holds \<open>t\<close>, ascending.
\<close>

definition np_where_eq :: "int list \<Rightarrow> int \<Rightarrow> nat list" where
  "np_where_eq row t = filter (\<lambda>idx. row ! idx = t) [0..<length row]"

text \<open>
  Lines 177 to 180: the loop over these indices stops at the first one; the variable
  stays \<open>None\<close> when there is none.
\<close>

definition response_token_ids_start_idx :: "int list \<Rightarrow> int \<Rightarrow> nat option" where
  "response_token_ids_start_idx row t =
     (case np_where_eq row t of [] \<Rightarrow> None | idx # _ \<Rightarrow> Some idx)"

text \<open>
  Line 190, \<open>labels[i, :end] = v\<close>: a slice assignment; a slice end beyond the row is
  clipped to the row.
\<close>

definition slice_fill :: "int list \<Rightarrow> nat \<Rightarrow> int \<Rightarrow> int list" where
  "slice_fill row e v = replicate (min e (length row)) v @ drop e row"

text \<open>
  Lines 176 to 190, the loop \<open>for i in range(len(examples))\<close>. The search reads the
  parent's tensor \<open>batch["labels"]\<close>; the assignment writes \<open>labels\<close>, its clone.
  Reading row \<open>i\<close> of a tensor with fewer rows, and reading \<open>response_token_ids[0]\<close> of
  an empty list, raise IndexError.
\<close>

fun mask_loop :: "int list \<Rightarrow> int list list \<Rightarrow> nat list \<Rightarrow> int list list \<Rightarrow> error + int list list" where
  "mask_loop response_token_ids batch_labels [] labels_clone = Inr labels_clone"
| "mask_loop response_token_ids batch_labels (i # rest) labels_clone =
     (if length batch_labels \<le> i then Inl IndexError
      else
        (case response_token_ids of
           [] \<Rightarrow> Inl IndexError
         | r # _ \<Rightarrow>
             (case response_token_ids_start_idx (batch_labels ! i) r of
                None \<Rightarrow> Inl (RuntimeError response_token_ids (batch_labels ! i))
              | Some start_idx \<Rightarrow>
                  (let response_token_ids_end_idx = start_idx + 1
                   in mask_loop response_token_ids batch_labels rest
                        (labels_clone[i := slice_fill (labels_clone ! i) response_token_ids_end_idx (- 100)])))))"

text \<open>
  Lines 169 to 194, \<open>DataCollatorForCompletionOnlyLM.torch_call\<close>. The parent's
  \<open>torch_call\<close> and the tokenizer's \<open>encode\<close> are library code and are parameters.
\<close>

definition torch_call ::
  "('ex list \<Rightarrow> error + 'b batch_scheme) \<Rightarrow> (string \<Rightarrow> int list) \<Rightarrow> 'ex list \<Rightarrow> error + 'b batch_scheme" where
  "torch_call super_torch_call encode examples =
     (case super_torch_call examples of
        Inl e \<Rightarrow> Inl e
      | Inr batch \<Rightarrow>
          (let response_token_ids = encode RESPONSE_KEY_NL;
               labels_clone = labels batch
           in case mask_loop response_token_ids (labels batch) [0..<length examples] labels_clone of
                Inl e \<Rightarrow> Inl e
              | Inr labels' \<Rightarrow> Inr (batch\<lparr>labels := labels'\<rparr>)))"

section \<open>Prompt templates\<close>

text \<open>
  The values of the text columns of a dataset: a string, or \<open>None\<close> for a missing
  value.
\<close>

datatype pyval = PyNone | PyStr string

text \<open>\<open>str(v)\<close>, as \<open>str.format\<close> renders a value with an empty format specification.\<close>

fun py_str :: "pyval \<Rightarrow> string" where
  "py_str PyNone = ''None''"
| "py_str (PyStr s) = s"

text \<open>The truth value of \<open>v\<close> in \<open>if v:\<close>: \<open>None\<close> and the empty string are false.\<close>

fun truthy :: "pyval \<Rightarrow> bool" where
  "truthy PyNone = False"
| "truthy (PyStr s) = (s \<noteq> [])"

text \<open>
  \<open>template.format(**kwargs)\<close> for templates whose replacement fields are plain names,
  as all templates of \<open>model.py\<close> are. The second argument is the name of the field
  being read, if any. \<open>{{\<close> and \<open>}}\<close> stand for a brace; a field with no name asks for
  a positional argument, of which there are none; a name that is not a keyword argument
  raises KeyError; a brace left open or closed alone raises ValueError. A substituted
  value is not scanned again.
\<close>

fun format_fields :: "(string \<times> pyval) list \<Rightarrow> string option \<Rightarrow> string \<Rightarrow> error + string" where
  "format_fields kwargs None [] = Inr []"
| "format_fields kwargs (Some name) [] = Inl ValueError"
| "format_fields kwargs None (c # cs) =
     (if c = CHR ''{'' then
        (case cs of
           [] \<Rightarrow> Inl ValueError
         | d # ds \<Rightarrow>
             if d = CHR ''{'' then map_sum id ((#) CHR ''{'') (format_fields kwargs None ds)
             else format_fields kwargs (Some []) cs)
      else if c = CHR ''}'' then
        (case cs of
           [] \<Rightarrow> Inl ValueError
         | d # ds \<Rightarrow>
             if d = CHR ''}'' then map_sum id ((#) CHR ''}'') (format_fields kwargs None ds)
             else Inl ValueError)
      else map_sum id ((#) c) (format_fields kwargs None cs))"
| "format_fields kwargs (Some name) (c # cs) =
     (if c = CHR ''}'' then
        (if name = [] then Inl IndexError
         else
           (case map_of kwargs name of
              None \<Rightarrow> Inl (KeyError name)
            | Some v \<Rightarrow> map_sum id ((@) (py_str v)) (format_fields kwargs None cs)))
      else format_fields kwargs (Some (name @ [c])) cs)"

definition py_format :: "string \<Rightarrow> (string \<times> pyval) list \<Rightarrow> error + string" where
  "py_format template kwargs = format_fields kwargs None template"

text \<open>\<open>model.py\<close>, lines 77 to 79.\<close>

definition INTRO_BLURB :: string where
  "INTRO_BLURB =
     ''Below is an instruction that describes a task. Write a response that appropriately completes the request.''"

text \<open>
  Inside the triple-quoted templates every line but the first starts with the four
  spaces of the source's indentation: consecutive fields are separated by a newline and
  four spaces.
\<close>

definition line_break :: string where
  "line_break = CHR 0x0A # ''    ''"

text \<open>
  Lines 81 to 93 and 96 to 112. The first \<open>format\<close> fills in the keys and puts the
  fields \<open>{instruction}\<close>, \<open>{input}\<close> and \<open>{response}\<close> back for the second one.
\<close>

definition PROMPT_NO_INPUT_FORMAT :: "error + string" where
  "PROMPT_NO_INPUT_FORMAT =
     py_format
       (''{intro}'' @ line_break @ ''{instruction_key}'' @ line_break @ ''{instruction}'' @ line_break @
        ''{response_key}'' @ line_break @ ''{response}'' @ line_break @ ''{end_key}'')
       [(''intro'', PyStr INTRO_BLURB),
        (''instruction_key'', PyStr INSTRUCTION_KEY),
        (''instruction'', PyStr ''{instruction}''),
        (''response_key'', PyStr RESPONSE_KEY),
        (''response'', PyStr ''{response}''),
        (''end_key'', PyStr END_KEY)]"

definition PROMPT_WITH_INPUT_FORMAT :: "error + string" where
  "PROMPT_WITH_INPUT_FORMAT =
     py_format
       (''{intro}'' @ line_break @ ''{instruction_key}'' @ line_break @ ''{instruction}'' @ line_break @
        ''{input_key}'' @ line_break @ ''{input}'' @ line_break @
        ''{response_key}'' @ line_break @ ''{response}'' @ line_break @ ''{end_key}'')
       [(''intro'', PyStr INTRO_BLURB),
        (''instruction_key'', PyStr INSTRUCTION_KEY),
        (''instruction'', PyStr ''{instruction}''),
        (''input_key'', PyStr INPUT_KEY),
        (''input'', PyStr ''{input}''),
        (''response_key'', PyStr RESPONSE_KEY),
        (''response'', PyStr ''{response}''),
        (''end_key'', PyStr END_KEY)]"

text \<open>
  A record of a dataset is a dictionary from column names to values. Lines 118 to 133,
  \<open>_add_text\<close>; the two templates are variables of the enclosing function and are
  parameters here. \<open>rec["instruction"]\<close> raises KeyError when the key is missing,
  \<open>rec.get("context")\<close> gives \<open>None\<close> then.
\<close>

type_synonym row = "string \<rightharpoonup> pyval"

definition add_text :: "string \<Rightarrow> string \<Rightarrow> row \<Rightarrow> error + row" where
  "add_text no_input_format with_input_format rec =
     (case rec ''instruction'' of
        None \<Rightarrow> Inl (KeyError ''instruction'')
      | Some instruction \<Rightarrow>
          (case rec ''response'' of
             None \<Rightarrow> Inl (KeyError ''response'')
           | Some response \<Rightarrow>
               (let context = (case rec ''context'' of None \<Rightarrow> PyNone | Some c \<Rightarrow> c)
                in if truthy context then
                     map_sum id (\<lambda>t. rec(''text'' \<mapsto> PyStr t))
                       (py_format with_input_format
                          [(''instruction'', instruction), (''response'', response), (''input'', context)])
                   else
                     map_sum id (\<lambda>t. rec(''text'' \<mapsto> PyStr t))
                       (py_format no_input_format
                          [(''instruction'', instruction), (''response'', response)]))))"

section \<open>Loading and preprocessing the dataset\<close>

text \<open>
  \<open>Dataset.map\<close> and \<open>Dataset.filter\<close> call a function on every record in order;
  the first exception ends the call.
\<close>

fun traverse :: "('a \<Rightarrow> error + 'b) \<Rightarrow> 'a list \<Rightarrow> error + 'b list" where
  "traverse f [] = Inr []"
| "traverse f (x # xs) =
     (case f x of
        Inl e \<Rightarrow> Inl e
      | Inr y \<Rightarrow> (case traverse f xs of Inl e \<Rightarrow> Inl e | Inr ys \<Rightarrow> Inr (y # ys)))"

fun filter_rows :: "('a \<Rightarrow> error + bool) \<Rightarrow> 'a list \<Rightarrow> error + 'a list" where
  "filter_rows p [] = Inr []"
| "filter_rows p (x # xs) =
     (case p x of
        Inl e \<Rightarrow> Inl e
      | Inr keep \<Rightarrow>
          (case filter_rows p xs of
             Inl e \<Rightarrow> Inl e
           | Inr ys \<Rightarrow> Inr (if keep then x # ys else ys)))"

text \<open>
  Lines 115 to 136, \<open>load_training_dataset\<close>. \<open>load_dataset\<close> is library code: it
  gives the splits of the dataset by name, or raises.
\<close>

definition load_training_dataset ::
  "(string \<Rightarrow> error + (string \<rightharpoonup> row list)) \<Rightarrow> string \<Rightarrow> string \<Rightarrow> string \<Rightarrow> error + row list" where
  "load_training_dataset load_dataset no_input_format with_input_format path_or_dataset =
     (case load_dataset path_or_dataset of
        Inl e \<Rightarrow> Inl e
      | Inr splits \<Rightarrow>
          (case splits ''train'' of
             None \<Rightarrow> Inl (KeyError ''train'')
           | Some dataset \<Rightarrow> traverse (add_text no_input_format with_input_format) dataset))"

text \<open>
  What the tokenizer returns for one text, and a record of the tokenized dataset: the
  tokenizer's columns and the columns that are left of the record.
\<close>

record encoding =
  input_ids :: "int list"
  attention_mask :: "int list"

record tokenized_row = encoding +
  other_columns :: row

text \<open>
  Lines 139 to 144, \<open>preprocess_batch\<close>, and the \<open>map\<close> of lines 151 to 155 that calls
  it, for one record. The tokenizer is a parameter: it takes the text, \<open>max_length\<close> and
  \<open>truncation\<close>, and encodes each text of a batch on its own. A text that is not a string
  is refused by the tokenizer. The tokenizer's columns replace columns of the same name.
\<close>

definition remove_columns :: "string list" where
  "remove_columns = [''instruction'', ''context'', ''response'', ''text'']"

definition preprocess_row ::
  "(string \<Rightarrow> int option \<Rightarrow> bool \<Rightarrow> encoding) \<Rightarrow> int option \<Rightarrow> row \<Rightarrow> error + tokenized_row" where
  "preprocess_row tokenizer_call max_length rec =
     (case rec ''text'' of
        None \<Rightarrow> Inl (KeyError ''text'')
      | Some PyNone \<Rightarrow> Inl ValueError
      | Some (PyStr t) \<Rightarrow>
          (let enc = tokenizer_call t max_length True
           in Inr \<lparr>input_ids = input_ids enc, attention_mask = attention_mask enc,
                   other_columns = rec |` (- (set remove_columns \<union> {''input_ids'', ''attention_mask''}))\<rparr>))"

text \<open>
  Lines 151 to 155, \<open>Dataset.map\<close> with \<open>remove_columns\<close>: before it calls the function,
  the library raises ValueError when a column to remove is not a column of the dataset. A
  column is a column of the dataset when a record has it; an empty dataset has no
  \<open>text\<close> column, since the \<open>map\<close> of line 135 added it to no record.
\<close>

definition missing_columns :: "row list \<Rightarrow> string list" where
  "missing_columns dataset = filter (\<lambda>c. list_all (\<lambda>rec. rec c = None) dataset) remove_columns"

definition tokenize_dataset ::
  "(string \<Rightarrow> int option \<Rightarrow> bool \<Rightarrow> encoding) \<Rightarrow> int option \<Rightarrow> row list \<Rightarrow> error + tokenized_row list" where
  "tokenize_dataset tokenizer_call max_length dataset =
     (if missing_columns dataset \<noteq> [] then Inl ValueError
      else traverse (preprocess_row tokenizer_call max_length) dataset)"

text \<open>
  Line 158, the filter \<open>len(rec["input_ids"]) < max_length\<close>. \<open>max_length\<close> is \<open>None\<close>
  when the model's configuration has no \<open>max_position_embeddings\<close> (line 75); comparing
  an integer with \<open>None\<close> raises TypeError.
\<close>

definition not_truncated :: "int option \<Rightarrow> tokenized_row \<Rightarrow> error + bool" where
  "not_truncated max_length rec =
     (case max_length of
        None \<Rightarrow> Inl TypeError
      | Some m \<Rightarrow> Inr (int (length (input_ids rec)) < m))"

text \<open>
  Lines 147 to 162, \<open>preprocess_dataset\<close>. \<open>shuffle\<close> is the library's random shuffle,
  a parameter.
\<close>

definition preprocess_dataset ::
  "(string \<Rightarrow> error + (string \<rightharpoonup> row list)) \<Rightarrow> (tokenized_row list \<Rightarrow> tokenized_row list) \<Rightarrow>
   string \<Rightarrow> string \<Rightarrow> (string \<Rightarrow> int option \<Rightarrow> bool \<Rightarrow> encoding) \<Rightarrow> int option \<Rightarrow>
   error + tokenized_row list" where
  "preprocess_dataset load_dataset shuffle no_input_format with_input_format tokenizer_call max_length =
     (case load_training_dataset load_dataset no_input_format with_input_format ''./train_data/'' of
        Inl e \<Rightarrow> Inl e
      | Inr dataset \<Rightarrow>
          (case tokenize_dataset tokenizer_call max_length dataset of
             Inl e \<Rightarrow> Inl e
           | Inr tokenized \<Rightarrow>
               (case filter_rows (not_truncated max_length) tokenized of
                  Inl e \<Rightarrow> Inl e
                | Inr kept \<Rightarrow> Inr (shuffle kept))))"

section \<open>The fine-tuning component\<close>

text \<open>
  A function with effects takes the state of the world and returns its result, an
  exception or a value, with the new state: what a call did before it raised stays done.
\<close>

type_synonym ('s, 'a) prog = "'s \<Rightarrow> (error + 'a) \<times> 's"

definition and_then :: "('s, 'a) prog \<Rightarrow> ('a \<Rightarrow> ('s, 'b) prog) \<Rightarrow> ('s, 'b) prog" where
  "and_then m f s = (case m s of (Inl e, s') \<Rightarrow> (Inl e, s') | (Inr x, s') \<Rightarrow> f x s')"

definition pure_call :: "error + 'a \<Rightarrow> ('s, 'a) prog" where
  "pure_call r s = (r, s)"

definition reading :: "('s \<Rightarrow> error + 'a) \<Rightarrow> ('s, 'a) prog" where
  "reading f s = (f s, s)"

text \<open>The world: the files the component writes, by path.\<close>

record world =
  files :: "string \<rightharpoonup> string"

text \<open>
  A Python dictionary as the list of its items in insertion order: setting a key that is
  there replaces its value in place, setting a new key appends it.
\<close>

fun dict_set :: "'k \<Rightarrow> 'v \<Rightarrow> ('k \<times> 'v) list \<Rightarrow> ('k \<times> 'v) list" where
  "dict_set k v [] = [(k, v)]"
| "dict_set k v ((k', v') # d) = (if k' = k then (k, v) # d else (k', v') # dict_set k v d)"

definition py_dict :: "('k \<times> 'v) list \<Rightarrow> ('k \<times> 'v) list" where
  "py_dict items = foldl (\<lambda>d (k, v). dict_set k v d) [] items"

text \<open>
  A dataframe, and \<open>DataFrame.to_dict(orient="records")\<close>: one dictionary per row, from
  the column names to the row's values, in the order of the rows.
\<close>

record 'v dataframe =
  columns :: "string list"
  rows :: "'v list list"

definition to_dict_records :: "'v dataframe \<Rightarrow> (string \<times> 'v) list list" where
  "to_dict_records df = map (\<lambda>r. py_dict (zip (columns df) r)) (rows df)"

text \<open>
  \<open>json.dump(obj, f)\<close> writes the text piece by piece, so what is written before an
  exception stays in the file. A writer gives the text it wrote and the exception it
  ended with, if any.
\<close>

type_synonym written = "string \<times> error option"

definition write_then :: "written \<Rightarrow> written \<Rightarrow> written" where
  "write_then a b = (case snd a of Some e \<Rightarrow> a | None \<Rightarrow> (fst a @ fst b, snd b))"

text \<open>
  The encoder of \<open>json\<close> on a list of dictionaries with string keys. The encodings of a
  key and of a value are the library's and are parameters: a value that \<open>json\<close> cannot
  encode ends with TypeError. An empty list is \<open>[]\<close> and an empty dictionary \<open>{}\<close>; the
  items of a dictionary are \<open>key: value\<close>, and items and dictionaries are separated by a
  comma and a space.
\<close>

fun iterencode_items :: "(string \<Rightarrow> string) \<Rightarrow> ('v \<Rightarrow> written) \<Rightarrow> (string \<times> 'v) list \<Rightarrow> written" where
  "iterencode_items key value [] = ([], None)"
| "iterencode_items key value ((k, v) # rest) =
     write_then (key k @ '': '', None)
       (write_then (value v)
          (if rest = [] then ([], None)
           else write_then ('', '', None) (iterencode_items key value rest)))"

definition iterencode_dict :: "(string \<Rightarrow> string) \<Rightarrow> ('v \<Rightarrow> written) \<Rightarrow> (string \<times> 'v) list \<Rightarrow> written" where
  "iterencode_dict key value d =
     (if d = [] then (''{}'', None)
      else write_then (''{'', None) (write_then (iterencode_items key value d) (''}'', None)))"

fun iterencode_dicts :: "(string \<Rightarrow> string) \<Rightarrow> ('v \<Rightarrow> written) \<Rightarrow> (string \<times> 'v) list list \<Rightarrow> written" where
  "iterencode_dicts key value [] = ([], None)"
| "iterencode_dicts key value (d # rest) =
     write_then (iterencode_dict key value d)
       (if rest = [] then ([], None)
        else write_then ('', '', None) (iterencode_dicts key value rest))"

definition iterencode_list :: "(string \<Rightarrow> string) \<Rightarrow> ('v \<Rightarrow> written) \<Rightarrow> (string \<times> 'v) list list \<Rightarrow> written" where
  "iterencode_list key value ds =
     (if ds = [] then (''[]'', None)
      else write_then (''['', None) (write_then (iterencode_dicts key value ds) ('']'', None)))"

text \<open>\<open>os.path.join\<close> of two components, on POSIX.\<close>

definition os_path_join :: "string \<Rightarrow> string \<Rightarrow> string" where
  "os_path_join a b =
     (if b \<noteq> [] \<and> hd b = CHR ''/'' then b
      else if a = [] \<or> last a = CHR ''/'' then a @ b
      else a @ ''/'' @ b)"

text \<open>Lines 207 to 231, the \<open>TrainingArguments\<close>. A float literal \<open>m e k\<close> is the pair \<open>(m, k)\<close>.\<close>

record training_arguments =
  output_dir :: string
  per_device_train_batch_size :: int
  per_device_eval_batch_size :: int
  fp16 :: bool
  bf16 :: bool
  learning_rate :: "int \<times> int"
  num_train_epochs :: int
  deepspeed :: "string option"
  gradient_checkpointing :: bool
  logging_dir :: string
  logging_strategy :: string
  logging_steps :: int
  evaluation_strategy :: string
  eval_steps :: int
  save_strategy :: string
  save_steps :: int
  save_total_limit :: int
  load_best_model_at_end :: bool
  report_to :: string
  disable_tqdm :: bool
  remove_unused_columns :: bool
  local_rank :: int
  warmup_steps :: int

definition local_output_dir :: string where
  "local_output_dir = ''./model_dir/''"

definition epoch_count :: int where
  "epoch_count = 1"

definition training_args :: training_arguments where
  "training_args =
     \<lparr>output_dir = local_output_dir,
      per_device_train_batch_size = 4,
      per_device_eval_batch_size = 4,
      fp16 = False,
      bf16 = False,
      learning_rate = (1, - 5),
      num_train_epochs = epoch_count,
      deepspeed = None,
      gradient_checkpointing = True,
      logging_dir = local_output_dir @ ''/runs'',
      logging_strategy = ''steps'',
      logging_steps = 10,
      evaluation_strategy = ''steps'',
      eval_steps = 500,
      save_strategy = ''steps'',
      save_steps = 1000,
      save_total_limit = 10,
      load_best_model_at_end = False,
      report_to = ''tensorboard'',
      disable_tqdm = True,
      remove_unused_columns = False,
      local_rank = 2,
      warmup_steps = 0\<rparr>"

text \<open>Lines 196 to 198 and 234 to 240: the collator and the trainer, as they are built.\<close>

record 'tok collator =
  collator_tokenizer :: 'tok
  mlm :: bool
  return_tensors :: string
  pad_to_multiple_of :: "nat option"

record ('mdl, 'tok) trainer =
  trainer_model :: 'mdl
  trainer_tokenizer :: 'tok
  args :: training_arguments
  train_dataset :: "tokenized_row list"
  data_collator :: "'tok collator"

text \<open>
  The library calls of \<open>fine_tune_model\<close>: pandas, os and the encodings of json for a
  key and a value; the tokenizer and the
  model of transformers; datasets; the parent collator and the trainer. \<open>'v\<close> is the
  type of a dataframe's values, \<open>'mdl\<close> a model, \<open>'tok\<close> a tokenizer, \<open>'w\<close> the world.
\<close>

record ('v, 'mdl, 'tok, 'w) library =
  lib_read_parquet :: "string \<Rightarrow> 'w \<Rightarrow> error + 'v dataframe"
  lib_makedirs :: "string \<Rightarrow> ('w, unit) prog"
  lib_json_string :: "string \<Rightarrow> string"
  lib_json_value :: "'v \<Rightarrow> written"
  lib_tokenizer_from_pretrained :: "string \<Rightarrow> error + 'tok"
  lib_set_pad_token_to_eos :: "'tok \<Rightarrow> 'tok"
  lib_add_special_tokens :: "'tok \<Rightarrow> string list \<Rightarrow> 'tok"
  lib_model_from_pretrained :: "string \<Rightarrow> bool \<Rightarrow> bool \<Rightarrow> error + 'mdl"
  lib_tokenizer_len :: "'tok \<Rightarrow> nat"
  lib_resize_token_embeddings :: "'mdl \<Rightarrow> nat \<Rightarrow> error + unit"
  lib_max_position_embeddings :: "'mdl \<Rightarrow> int option"
  lib_load_dataset :: "'w \<Rightarrow> string \<Rightarrow> error + (string \<rightharpoonup> row list)"
  lib_tokenizer_call :: "'tok \<Rightarrow> string \<Rightarrow> int option \<Rightarrow> bool \<Rightarrow> encoding"
  lib_tokenizer_encode :: "'tok \<Rightarrow> string \<Rightarrow> int list"
  lib_shuffle :: "tokenized_row list \<Rightarrow> tokenized_row list"
  lib_parent_torch_call :: "'tok collator \<Rightarrow> tokenized_row list \<Rightarrow> error + batch"
  lib_train :: "('mdl, 'tok) trainer \<Rightarrow> ('w, unit) prog"
  lib_save_model :: "('mdl, 'tok) trainer \<Rightarrow> string \<Rightarrow> ('w, unit) prog"

text \<open>
  Lines 19 to 27: the records of the parquet file are written as JSON. The directory is
  there once \<open>makedirs\<close> has returned; opening the file for writing empties it;
  \<open>json.dump\<close> then writes the text, and when it raises, the file keeps what was written
  until then.
\<close>

definition json_dump ::
  "('v, 'mdl, 'tok, 'x world_scheme) library \<Rightarrow> (string \<times> 'v) list list \<Rightarrow> string \<Rightarrow>
   ('x world_scheme, unit) prog" where
  "json_dump lib obj path w =
     (let out = iterencode_list (lib_json_string lib) (lib_json_value lib) obj
      in (case snd out of None \<Rightarrow> Inr () | Some e \<Rightarrow> Inl e,
          w\<lparr>files := (files w)(path \<mapsto> fst out)\<rparr>))"

definition save_training_prompts ::
  "('v, 'mdl, 'tok, 'x world_scheme) library \<Rightarrow> string \<Rightarrow> ('x world_scheme, unit) prog" where
  "save_training_prompts lib dataset_path =
     and_then (reading (lib_read_parquet lib dataset_path)) (\<lambda>train_df.
       let training_prompts = to_dict_records train_df;
           save_train_data_path = ''./train_data/''
       in and_then (lib_makedirs lib save_train_data_path) (\<lambda>_.
            let json_file_path = os_path_join save_train_data_path ''train_queries.json''
            in and_then (\<lambda>w. (Inr (), w\<lparr>files := (files w)(json_file_path \<mapsto> [])\<rparr>)) (\<lambda>_.
                 json_dump lib training_prompts json_file_path)))"

text \<open>Lines 37 to 45, \<open>load_tokenizer\<close>.\<close>

definition load_tokenizer ::
  "('v, 'mdl, 'tok, 'w) library \<Rightarrow> string \<Rightarrow> error + 'tok" where
  "load_tokenizer lib pretrained_model_name_or_path =
     (case lib_tokenizer_from_pretrained lib pretrained_model_name_or_path of
        Inl e \<Rightarrow> Inl e
      | Inr tok \<Rightarrow>
          Inr (lib_add_special_tokens lib (lib_set_pad_token_to_eos lib tok)
                 [END_KEY, INSTRUCTION_KEY, RESPONSE_KEY_NL]))"

text \<open>
  Lines 48 to 56, \<open>load_model\<close>. The library's arguments are the name,
  \<open>trust_remote_code\<close> and \<open>use_cache\<close>.
\<close>

definition use_cache_for :: "bool \<Rightarrow> bool" where
  "use_cache_for gradient_checkpointing_on = (if gradient_checkpointing_on then False else True)"

definition load_model ::
  "('v, 'mdl, 'tok, 'w) library \<Rightarrow> string \<Rightarrow> bool \<Rightarrow> error + 'mdl" where
  "load_model lib pretrained_model_name_or_path gradient_checkpointing_on =
     lib_model_from_pretrained lib pretrained_model_name_or_path True
       (use_cache_for gradient_checkpointing_on)"

text \<open>
  The variables \<open>model\<close> and \<open>tokenizer\<close> of \<open>fine_tune_model\<close>, which its nested
  functions read: \<open>None\<close> while the variable is not bound. Reading a variable of the
  enclosing function that is not bound raises NameError.
\<close>

record ('mdl, 'tok) frame =
  model :: "'mdl option"
  tokenizer :: "'tok option"

definition read_var :: "string \<Rightarrow> 'a option \<Rightarrow> error + 'a" where
  "read_var name cell = (case cell of None \<Rightarrow> Inl (NameError name) | Some v \<Rightarrow> Inr v)"

text \<open>
  Lines 59 to 66, \<open>get_model_tokenizer\<close>. Line 65 reads \<open>model\<close> and then \<open>tokenizer\<close>,
  which are not names of this function but of the enclosing one.
\<close>

definition get_model_tokenizer ::
  "('v, 'mdl, 'tok, 'w) library \<Rightarrow> ('mdl, 'tok) frame \<Rightarrow> string \<Rightarrow> bool \<Rightarrow> error + 'mdl \<times> 'tok" where
  "get_model_tokenizer lib fr pretrained_model_name_or_path gradient_checkpointing_on =
     (case load_tokenizer lib pretrained_model_name_or_path of
        Inl e \<Rightarrow> Inl e
      | Inr pretrained_tokenizer \<Rightarrow>
          (case load_model lib pretrained_model_name_or_path gradient_checkpointing_on of
             Inl e \<Rightarrow> Inl e
           | Inr pretrained_model \<Rightarrow>
               (case read_var ''model'' (model fr) of
                  Inl e \<Rightarrow> Inl e
                | Inr m \<Rightarrow>
                    (case read_var ''tokenizer'' (tokenizer fr) of
                       Inl e \<Rightarrow> Inl e
                     | Inr t \<Rightarrow>
                         (case lib_resize_token_embeddings lib m (lib_tokenizer_len lib t) of
                            Inl e \<Rightarrow> Inl e
                          | Inr _ \<Rightarrow> Inr (pretrained_model, pretrained_tokenizer))))))"

text \<open>
  The collator's \<open>torch_call\<close> with the library's parent collator and the encoder of the
  collator's tokenizer.
\<close>

definition collator_torch_call ::
  "('v, 'mdl, 'tok, 'w) library \<Rightarrow> 'tok collator \<Rightarrow> tokenized_row list \<Rightarrow> error + batch" where
  "collator_torch_call lib c examples =
     torch_call (lib_parent_torch_call lib c) (lib_tokenizer_encode lib (collator_tokenizer c)) examples"

text \<open>
  Lines 75 to 250, what follows the loading of the model and the tokenizer: the maximal
  length, the templates, the processed dataset, the collator, the trainer, training and
  saving.
\<close>

definition train_and_save ::
  "('v, 'mdl, 'tok, 'x world_scheme) library \<Rightarrow> ('mdl, 'tok) frame \<Rightarrow> ('x world_scheme, unit) prog" where
  "train_and_save lib fr =
     and_then (pure_call (read_var ''model'' (model fr))) (\<lambda>m.
       let max_length = lib_max_position_embeddings lib m
       in and_then (pure_call PROMPT_NO_INPUT_FORMAT) (\<lambda>no_input_format.
          and_then (pure_call PROMPT_WITH_INPUT_FORMAT) (\<lambda>with_input_format.
          and_then (pure_call (read_var ''tokenizer'' (tokenizer fr))) (\<lambda>t.
          and_then (reading (\<lambda>w. preprocess_dataset (lib_load_dataset lib w) (lib_shuffle lib)
                      no_input_format with_input_format (lib_tokenizer_call lib t) max_length)) (\<lambda>processed_data.
            let collator = \<lparr>collator_tokenizer = t, mlm = False, return_tensors = ''pt'',
                              pad_to_multiple_of = Some 8\<rparr>;
                the_trainer = \<lparr>trainer_model = m, trainer_tokenizer = t, args = training_args,
                                 train_dataset = processed_data, data_collator = collator\<rparr>
            in and_then (lib_train lib the_trainer) (\<lambda>_.
                 lib_save_model lib the_trainer local_output_dir))))))"

text \<open>
  Lines 15 to 250, \<open>fine_tune_model\<close>. When the function starts none of its variables is
  bound; line 69 binds \<open>model\<close> and \<open>tokenizer\<close> to what \<open>get_model_tokenizer\<close>
  returns, once it has returned. \<open>model_artifact_path\<close> is not used.
\<close>

definition fine_tune_model ::
  "('v, 'mdl, 'tok, 'x world_scheme) library \<Rightarrow> string \<Rightarrow> string \<Rightarrow> string \<Rightarrow> ('x world_scheme, unit) prog" where
  "fine_tune_model lib dataset_path model_name model_artifact_path =
     (let fr = \<lparr>model = None, tokenizer = None\<rparr>
      in and_then (save_training_prompts lib dataset_path) (\<lambda>_.
           and_then (pure_call (get_model_tokenizer lib fr model_name True)) (\<lambda>(m, t).
             train_and_save lib (fr\<lparr>model := Some m, tokenizer := Some t\<rparr>))))"

section \<open>The pipeline definition\<close>

text \<open>
  \<open>pipeline.py\<close>. Calling a component inside the pipeline function makes a task. An
  argument of a task is a parameter of the pipeline, a value of the \<open>constants\<close> module
  (given by its name), or the output of another task. A task is named after its
  component.
\<close>

datatype argument = PipelineParam string | Constant string | TaskOutput string

record task =
  component :: string
  arguments :: "argument list"
  display_name :: "string option"
  dependent_names :: "string list"
  cpu_request :: "string option"
  memory_limit :: "string option"

definition new_task :: "string \<Rightarrow> argument list \<Rightarrow> task" where
  "new_task c as =
     \<lparr>component = c, arguments = as, display_name = None, dependent_names = [],
      cpu_request = None, memory_limit = None\<rparr>"

text \<open>\<open>t.output\<close>.\<close>

definition task_output :: "task \<Rightarrow> argument" where
  "task_output t = TaskOutput (component t)"

definition after :: "task \<Rightarrow> task \<Rightarrow> task" where
  "after upstream t = t\<lparr>dependent_names := dependent_names t @ [component upstream]\<rparr>"

definition set_display_name :: "string \<Rightarrow> task \<Rightarrow> task" where
  "set_display_name n t = t\<lparr>display_name := Some n\<rparr>"

definition set_cpu_request :: "string \<Rightarrow> task \<Rightarrow> task" where
  "set_cpu_request cpu t = t\<lparr>cpu_request := Some cpu\<rparr>"

definition set_memory_limit :: "string \<Rightarrow> task \<Rightarrow> task" where
  "set_memory_limit memory t = t\<lparr>memory_limit := Some memory\<rparr>"

text \<open>
  The tasks a task waits for: those named with \<open>after\<close> and those whose output it
  takes as an argument.
\<close>

fun produced_by :: "argument \<Rightarrow> string list" where
  "produced_by (TaskOutput n) = [n]"
| "produced_by (PipelineParam p) = []"
| "produced_by (Constant c) = []"

definition upstream_tasks :: "task \<Rightarrow> string list" where
  "upstream_tasks t = remdups (dependent_names t @ concat (map produced_by (arguments t)))"

text \<open>Lines 20 to 42, the pipeline function: its tasks in the order they are made.\<close>

definition pipeline :: "argument \<Rightarrow> argument \<Rightarrow> task list" where
  "pipeline project_id job_id =
     (let process_data_task =
            set_display_name ''Data Processing'' (new_task ''process_data'' [Constant ''dataset_bucket'']);
          train_model_task =
            set_memory_limit ''64G''
              (set_cpu_request ''8''
                (set_display_name ''Dolly Fine Tuning''
                  (after process_data_task
                    (new_task ''fine_tune_model''
                       [task_output process_data_task, Constant ''original_model_name'',
                        Constant ''save_model_bucket_name'']))));
          upload_model_task =
            set_display_name ''Model_Upload''
              (after train_model_task
                (new_task ''upload_container'' [project_id, Constant ''trigger_id'']));
          serve_model_task =
            set_display_name ''Serve_Model''
              (after upload_model_task
                (new_task ''serve_model_component''
                   [project_id, Constant ''project_region'', Constant ''staging_bucket'',
                    Constant ''serving_image'', Constant ''model_display_name'']))
      in [process_data_task, train_model_task, upload_model_task, serve_model_task])"







section \<open>The texts the specification describes\<close>



text \<open>
  The JSON text of a list of records: the records in order between brackets, each the
  items \<open>key: value\<close> of a row in order between braces, separated by a comma and a
  space. The encodings of a key and of a value are parameters.
\<close>

fun join :: "string \<Rightarrow> string list \<Rightarrow> string" where
  "join sep [] = []"
| "join sep [x] = x"
| "join sep (x # y # rest) = x @ sep @ join sep (y # rest)"

definition json_object :: "(string \<Rightarrow> string) \<Rightarrow> ('v \<Rightarrow> string) \<Rightarrow> (string \<times> 'v) list \<Rightarrow> string" where
  "json_object key value d = ''{'' @ join '', '' (map (\<lambda>(k, v). key k @ '': '' @ value v) d) @ ''}''"

definition json_array :: "(string \<Rightarrow> string) \<Rightarrow> ('v \<Rightarrow> string) \<Rightarrow> (string \<times> 'v) list list \<Rightarrow> string" where
  "json_array key value ds = ''['' @ join '', '' (map (json_object key value) ds) @ '']''"

section \<open>Concrete inputs\<close>

text \<open>
  A batch of one example whose labels are the tokens \<open>5, 6\<close> of the prompt, the token
  \<open>7\<close> of the response key, and \<open>9, 2\<close> of the response; the tokenizer encodes the
  response key as the single token \<open>7\<close>.
\<close>

definition example_parent :: "unit list \<Rightarrow> error + batch" where
  "example_parent examples = Inr \<lparr>labels = [[5, 6, 7, 9, 2]]\<rparr>"

definition example_encode :: "string \<Rightarrow> int list" where
  "example_encode t = [7]"

text \<open>
  The same example under a tokenizer that starts every encoding with the token \<open>1\<close>:
  the response key is encoded as \<open>1, 7\<close> and every sequence starts with \<open>1\<close>.
\<close>

definition bos_parent :: "unit list \<Rightarrow> error + batch" where
  "bos_parent examples = Inr \<lparr>labels = [[1, 5, 6, 7, 9, 2]]\<rparr>"

definition bos_encode :: "string \<Rightarrow> int list" where
  "bos_encode t = [1, 7]"

text \<open>An example whose labels do not contain the token of the response key.\<close>

definition keyless_parent :: "unit list \<Rightarrow> error + batch" where
  "keyless_parent examples = Inr \<lparr>labels = [[5, 6, 9, 2]]\<rparr>"

text \<open>
  The same example when the prompt itself holds the token of the response key: the
  instruction quotes the key.
\<close>

definition quoting_parent :: "unit list \<Rightarrow> error + batch" where
  "quoting_parent examples = Inr \<lparr>labels = [[5, 7, 6, 7, 9, 2]]\<rparr>"

text \<open>
  Records with a context, with an empty context and without an instruction.
\<close>

definition example_rec :: row where
  "example_rec =
     [''instruction'' \<mapsto> PyStr ''Add'', ''context'' \<mapsto> PyStr ''2+2'', ''response'' \<mapsto> PyStr ''4'']"

definition example_rec_empty_context :: row where
  "example_rec_empty_context =
     [''instruction'' \<mapsto> PyStr ''Add'', ''context'' \<mapsto> PyStr [], ''response'' \<mapsto> PyStr ''4'']"


text \<open>
  A dataset of two records, a dataset whose record has no instruction, a tokenizer that
  gives one token per character and truncates, and a shuffle that reverses the dataset.
\<close>

definition example_load_dataset :: "string \<Rightarrow> error + (string \<rightharpoonup> row list)" where
  "example_load_dataset path = Inr [''train'' \<mapsto> [example_rec, example_rec_empty_context]]"


definition example_tokenizer_call :: "string \<Rightarrow> int option \<Rightarrow> bool \<Rightarrow> encoding" where
  "example_tokenizer_call t max_length truncation =
     (let n = (case max_length of
                 None \<Rightarrow> length t
               | Some m \<Rightarrow> if truncation then min (length t) (nat m) else length t)
      in \<lparr>input_ids = replicate n 7, attention_mask = replicate n 1\<rparr>)"

definition example_shuffle :: "tokenized_row list \<Rightarrow> tokenized_row list" where
  "example_shuffle ds = rev ds"

text \<open>
  The values of a dataframe: a text, or a timestamp, which \<open>json\<close> cannot encode. A
  dataframe of texts and one with a timestamp.
\<close>

datatype cell = Text string | Timestamp nat

definition quoted :: "string \<Rightarrow> string" where
  "quoted s = CHR 0x22 # s @ [CHR 0x22]"

fun example_json_value :: "cell \<Rightarrow> written" where
  "example_json_value (Text s) = (quoted s, None)"
| "example_json_value (Timestamp n) = ([], Some TypeError)"

definition example_dataframe :: "cell dataframe" where
  "example_dataframe =
     \<lparr>columns = [''instruction'', ''response''],
      rows = [[Text ''Add'', Text ''4''], [Text ''Sub'', Text ''0'']]\<rparr>"


text \<open>
  A library in which every call returns: models and tokenizers are numbers. The same
  library with the parquet file that has a timestamp, and with a model name that the hub
  does not know.
\<close>

definition example_library :: "(cell, nat, nat, world) library" where
  "example_library =
     \<lparr>lib_read_parquet = (\<lambda>path w. Inr example_dataframe),
      lib_makedirs = (\<lambda>path w. (Inr (), w)),
      lib_json_string = quoted,
      lib_json_value = example_json_value,
      lib_tokenizer_from_pretrained = (\<lambda>name. Inr 0),
      lib_set_pad_token_to_eos = (\<lambda>t. t),
      lib_add_special_tokens = (\<lambda>t tokens. t + length tokens),
      lib_model_from_pretrained = (\<lambda>name trust_remote_code use_cache. Inr 0),
      lib_tokenizer_len = (\<lambda>t. t),
      lib_resize_token_embeddings = (\<lambda>m n. Inr ()),
      lib_max_position_embeddings = (\<lambda>m. Some 2048),
      lib_load_dataset = (\<lambda>w. example_load_dataset),
      lib_tokenizer_call = (\<lambda>t. example_tokenizer_call),
      lib_tokenizer_encode = (\<lambda>t. example_encode),
      lib_shuffle = example_shuffle,
      lib_parent_torch_call = (\<lambda>c examples. Inr \<lparr>labels = map (\<lambda>r. [5, 6, 7, 9, 2]) examples\<rparr>),
      lib_train = (\<lambda>tr w. (Inr (), w\<lparr>files := (files w)(''./model_dir/checkpoint'' \<mapsto> ''step'')\<rparr>)),
      lib_save_model = (\<lambda>tr dir w. (Inr (), w\<lparr>files := (files w)(dir @ ''model.bin'' \<mapsto> ''weights'')\<rparr>))\<rparr>"


definition unknown_model_library :: "(cell, nat, nat, world) library" where
  "unknown_model_library =
     example_library\<lparr>lib_tokenizer_from_pretrained := (\<lambda>name. Inl (LibraryError ''OSError''))\<rparr>"

definition empty_world :: world where
  "empty_world = \<lparr>files = Map.empty\<rparr>"



section \<open>Properties of the collator\<close>

text \<open>The first index found by the search is the first occurrence of the token.\<close>


lemma np_where_eq_Nil: "np_where_eq row t = [] \<longleftrightarrow> t \<notin> set row"
  by (auto simp: np_where_eq_def filter_empty_conv in_set_conv_nth)

lemma np_where_eq_Cons:
  assumes "np_where_eq row t = s # others"
  shows "s < length row \<and> row ! s = t \<and> (\<forall>k<s. row ! k \<noteq> t)"
proof -
  from assms obtain us vs where
    split: "[0..<length row] = us @ s # vs" and
    before: "\<forall>u\<in>set us. row ! u \<noteq> t" and
    here: "row ! s = t"
    unfolding np_where_eq_def filter_eq_Cons_iff by blast
  have "s \<in> set [0..<length row]" using split by simp
  then have lt: "s < length row" by simp
  have srt: "sorted (us @ s # vs)" using split sorted_upt[of 0 "length row"] by simp
  have early: "row ! k \<noteq> t" if "k < s" for k
  proof -
    have "k \<in> set (us @ s # vs)" using that lt split[symmetric] by simp
    moreover have "k \<notin> set (s # vs)" using srt that by (auto simp: sorted_append)
    ultimately have "k \<in> set us" by simp
    then show ?thesis using before by blast
  qed
  show ?thesis using lt here early by blast
qed

lemma start_idx_None: "response_token_ids_start_idx row t = None \<longleftrightarrow> t \<notin> set row"
  using np_where_eq_Nil[of row t]
  by (cases "np_where_eq row t") (simp_all add: response_token_ids_start_idx_def)

lemma start_idx_Some:
  "response_token_ids_start_idx row t = Some s \<Longrightarrow>
     s < length row \<and> row ! s = t \<and> (\<forall>k<s. row ! k \<noteq> t)"
  using np_where_eq_Cons[of row t s]
  by (auto simp: response_token_ids_start_idx_def split: list.splits)

lemma slice_fill_length: "length (slice_fill row e v) = length row"
  by (simp add: slice_fill_def)

lemma slice_fill_nth:
  "j < length row \<Longrightarrow> slice_fill row e v ! j = (if j < e then v else row ! j)"
  by (auto simp: slice_fill_def nth_append min_def)

lemma mask_loop_Inr:
  "mask_loop rids bl idxs lc = Inr out \<Longrightarrow> distinct idxs \<Longrightarrow>
     length out = length lc \<and>
     (\<forall>i\<in>set idxs. i < length bl \<and> rids \<noteq> [] \<and> hd rids \<in> set (bl ! i)) \<and>
     (\<forall>i<length lc. out ! i =
        (if i \<in> set idxs
         then slice_fill (lc ! i) (the (response_token_ids_start_idx (bl ! i) (hd rids)) + 1) (- 100)
         else lc ! i))"
proof (induction idxs arbitrary: lc)
  case Nil
  then show ?case by simp
next
  case (Cons i rest)
  from Cons.prems(1) have ib: "i < length bl"
    by (simp split: if_splits)
  from Cons.prems(1) ib obtain r rs where rids: "rids = r # rs"
    by (cases rids) auto
  from Cons.prems(1) ib rids obtain s where
    s: "response_token_ids_start_idx (bl ! i) r = Some s"
    by (cases "response_token_ids_start_idx (bl ! i) r") auto
  let ?lc = "lc[i := slice_fill (lc ! i) (s + 1) (- 100)]"
  from Cons.prems(1) ib rids s have rec: "mask_loop rids bl rest ?lc = Inr out"
    by simp
  from Cons.prems(2) have d: "distinct rest" and ni: "i \<notin> set rest" by simp_all
  note IH = Cons.IH[OF rec d]
  have mem: "r \<in> set (bl ! i)"
    using s start_idx_None[of "bl ! i" r] by auto
  have upd: "?lc ! k = lc ! k" if "k \<in> set rest" for k
    using that ni by (cases "k = i") simp_all
  have len: "length out = length lc" using IH by simp
  have ok: "\<forall>k\<in>set (i # rest). k < length bl \<and> rids \<noteq> [] \<and> hd rids \<in> set (bl ! k)"
    using IH ib rids mem by simp
  have vals: "out ! k =
        (if k \<in> set (i # rest)
         then slice_fill (lc ! k) (the (response_token_ids_start_idx (bl ! k) (hd rids)) + 1) (- 100)
         else lc ! k)" if k: "k < length lc" for k
  proof (cases "k \<in> set rest")
    case True
    then show ?thesis using IH k upd[OF True] by simp
  next
    case False
    then have "out ! k = ?lc ! k" using IH k by simp
    then show ?thesis using False k rids s by (cases "k = i") simp_all
  qed
  show ?case using len ok vals by blast
qed


lemma mask_loop_cases:
  "rids = r # rs \<Longrightarrow> \<forall>i\<in>set idxs. i < length bl \<Longrightarrow>
     (case mask_loop rids bl idxs lc of
        Inr out \<Rightarrow> \<forall>i\<in>set idxs. r \<in> set (bl ! i)
      | Inl e \<Rightarrow> \<exists>i\<in>set idxs. r \<notin> set (bl ! i) \<and> e = RuntimeError rids (bl ! i))"
proof (induction idxs arbitrary: lc)
  case Nil
  then show ?case by simp
next
  case (Cons i rest)
  show ?case
  proof (cases "response_token_ids_start_idx (bl ! i) r")
    case None
    then have "r \<notin> set (bl ! i)" by (simp add: start_idx_None)
    then show ?thesis using None Cons.prems by simp
  next
    case (Some s)
    then have mem: "r \<in> set (bl ! i)"
      using start_idx_None[of "bl ! i" r] by auto
    have "\<forall>k\<in>set rest. k < length bl" using Cons.prems(2) by simp
    from Cons.IH[OF Cons.prems(1) this, of "lc[i := slice_fill (lc ! i) (s + 1) (- 100)]"]
    show ?thesis using Some mem Cons.prems
      by (auto split: sum.splits)
  qed
qed

text \<open>
  What \<open>torch_call\<close> does when it returns a batch, for every example of it: the parent
  collator returned a batch, the response key was encoded as a non-empty list of tokens
  \<open>r # rs\<close>, and with \<open>s\<close> the first position of \<open>r\<close> in the parent's labels of the
  example, every label up to and including position \<open>s\<close> is \<open>-100\<close> and every later
  label is the parent's. The labels keep their shape.
\<close>

lemma torch_call_masks_through_first_key_token:
  assumes "torch_call super_torch_call encode examples = Inr out" and "i < length examples"
  shows "\<exists>b r rs s. super_torch_call examples = Inr b \<and> encode RESPONSE_KEY_NL = r # rs \<and>
           i < length (labels b) \<and> length (labels out) = length (labels b) \<and>
           length (labels out ! i) = length (labels b ! i) \<and>
           s < length (labels b ! i) \<and> labels b ! i ! s = r \<and> (\<forall>k<s. labels b ! i ! k \<noteq> r) \<and>
           (\<forall>j<length (labels b ! i).
              labels out ! i ! j = (if j \<le> s then - 100 else labels b ! i ! j))"
proof -
  from assms(1) obtain b where b: "super_torch_call examples = Inr b"
    by (cases "super_torch_call examples") (simp_all add: torch_call_def)
  let ?rids = "encode RESPONSE_KEY_NL"
  let ?idxs = "[0..<length examples]"
  from assms(1) b obtain ls where
    ls: "mask_loop ?rids (labels b) ?idxs (labels b) = Inr ls" and out: "out = b\<lparr>labels := ls\<rparr>"
    by (cases "mask_loop ?rids (labels b) ?idxs (labels b)") (auto simp: torch_call_def Let_def)
  have i: "i \<in> set ?idxs" using assms(2) by simp
  note inv = mask_loop_Inr[OF ls distinct_upt]
  from inv i have ib: "i < length (labels b)" and ne: "?rids \<noteq> []"
    and mem: "hd ?rids \<in> set (labels b ! i)" by blast+
  from ne obtain r rs where rids: "?rids = r # rs" by (cases ?rids) auto
  from mem rids obtain s where s: "response_token_ids_start_idx (labels b ! i) r = Some s"
    using start_idx_None[of "labels b ! i" r] by (cases "response_token_ids_start_idx (labels b ! i) r") auto
  note first = start_idx_Some[OF s]
  have row: "ls ! i = slice_fill (labels b ! i) (s + 1) (- 100)"
    using inv i ib rids s by simp
  have len: "length ls = length (labels b)" using inv by simp
  have vals: "\<forall>j<length (labels b ! i). ls ! i ! j = (if j \<le> s then - 100 else labels b ! i ! j)"
    by (auto simp: row slice_fill_nth)
  have rowlen: "length (ls ! i) = length (labels b ! i)"
    by (simp add: row slice_fill_length)
  show ?thesis
    using b rids ib len rowlen first vals out by auto
qed

text \<open>
  C1. The mask of \<open>torch_call\<close> ends one position after the first occurrence of the
  first token of the encoded response key, which need not be the end of the response
  key. With a tokenizer that starts every encoding with the token \<open>1\<close>, the key is
  \<open>1, 7\<close> and the sequence starts with \<open>1\<close>: only the first label is \<open>-100\<close>, and the
  prompt tokens \<open>5, 6\<close> and the key's token \<open>7\<close> keep their labels. With the key the
  single token \<open>7\<close> and a prompt that holds this token, the mask ends inside the prompt:
  the prompt token \<open>6\<close> and the token \<open>7\<close> of the response key keep their labels.
\<close>

theorem torch_call_leaves_prompt_labels:
  "bos_encode RESPONSE_KEY_NL = [1, 7] \<and>
   bos_parent [()] = Inr \<lparr>labels = [[1, 5, 6, 7, 9, 2]]\<rparr> \<and>
   torch_call bos_parent bos_encode [()] = Inr \<lparr>labels = [[- 100, 5, 6, 7, 9, 2]]\<rparr> \<and>
   example_encode RESPONSE_KEY_NL = [7] \<and>
   quoting_parent [()] = Inr \<lparr>labels = [[5, 7, 6, 7, 9, 2]]\<rparr> \<and>
   torch_call quoting_parent example_encode [()] = Inr \<lparr>labels = [[- 100, - 100, 6, 7, 9, 2]]\<rparr>"
  by (simp add: torch_call_def bos_parent_def bos_encode_def quoting_parent_def example_encode_def
        response_token_ids_start_idx_def np_where_eq_def slice_fill_def upt_conv_Cons)

text \<open>
  C6. When the parent collator returns a batch with one row of labels per example and
  the encoded response key has a first token \<open>r\<close>: \<open>torch_call\<close> raises RuntimeError
  if and only if some row of labels does not contain \<open>r\<close>; and when every row contains
  \<open>r\<close>, it returns the parent's batch with only the labels replaced.
\<close>

theorem torch_call_runtime_error_iff:
  assumes "super_torch_call examples = Inr b"
    and "encode RESPONSE_KEY_NL = r # rs"
    and "length (labels b) = length examples"
  shows "((\<exists>ids row. torch_call super_torch_call encode examples = Inl (RuntimeError ids row))
            \<longleftrightarrow> (\<exists>row\<in>set (labels b). r \<notin> set row)) \<and>
         ((\<forall>row\<in>set (labels b). r \<in> set row)
            \<longrightarrow> (\<exists>ls. torch_call super_torch_call encode examples = Inr (b\<lparr>labels := ls\<rparr>)))"
proof -
  let ?idxs = "[0..<length examples]"
  let ?res = "mask_loop (r # rs) (labels b) ?idxs (labels b)"
  have bound: "\<forall>i\<in>set ?idxs. i < length (labels b)" using assms(3) by simp
  note cases = mask_loop_cases[OF refl bound, of r rs "labels b"]
  have rows: "(\<forall>i\<in>set ?idxs. r \<in> set (labels b ! i)) \<longleftrightarrow> (\<forall>row\<in>set (labels b). r \<in> set row)"
    using assms(3) by (auto simp: all_set_conv_all_nth)
  have tc: "torch_call super_torch_call encode examples =
              (case ?res of Inl e \<Rightarrow> Inl e | Inr ls \<Rightarrow> Inr (b\<lparr>labels := ls\<rparr>))"
    using assms(1,2) by (simp add: torch_call_def)
  show ?thesis
  proof (cases ?res)
    case (Inl e)
    with cases obtain i where "i \<in> set ?idxs" "r \<notin> set (labels b ! i)"
      "e = RuntimeError (r # rs) (labels b ! i)" by auto
    then show ?thesis using Inl tc rows by auto
  next
    case (Inr ls)
    with cases have "\<forall>i\<in>set ?idxs. r \<in> set (labels b ! i)" by simp
    then show ?thesis using Inr tc rows by auto
  qed
qed

theorem torch_call_runtime_error_witness:
  "example_parent [()] = Inr \<lparr>labels = [[5, 6, 7, 9, 2]]\<rparr> \<and>
   example_encode RESPONSE_KEY_NL = 7 # [] \<and>
   length (labels \<lparr>labels = [[5, 6, 7, 9, 2]]\<rparr>) = length [()] \<and>
   \<not> (\<exists>ids row. torch_call example_parent example_encode [()] = Inl (RuntimeError ids row)) \<and>
   (\<exists>ls. torch_call example_parent example_encode [()] = Inr \<lparr>labels = ls\<rparr>) \<and>
   keyless_parent [()] = Inr \<lparr>labels = [[5, 6, 9, 2]]\<rparr> \<and>
   (\<exists>ids row. torch_call keyless_parent example_encode [()] = Inl (RuntimeError ids row))"
proof -
  have p: "example_parent [()] = Inr \<lparr>labels = [[5, 6, 7, 9, 2]]\<rparr>"
    by (simp add: example_parent_def)
  have e: "example_encode RESPONSE_KEY_NL = 7 # []"
    by (simp add: example_encode_def)
  have l: "length (labels \<lparr>labels = [[5, 6, 7, 9, 2]]\<rparr>) = length [()]"
    by simp
  have q: "keyless_parent [()] = Inr \<lparr>labels = [[5, 6, 9, 2]]\<rparr>"
    by (simp add: keyless_parent_def)
  have m: "length (labels \<lparr>labels = [[5, 6, 9, 2]]\<rparr>) = length [()]"
    by simp
  show ?thesis
    using p e l q
      torch_call_runtime_error_iff[where super_torch_call = example_parent
        and encode = example_encode and examples = "[()]", OF p e l]
      torch_call_runtime_error_iff[where super_torch_call = keyless_parent
        and encode = example_encode and examples = "[()]", OF q e m]
    by simp
qed

section \<open>Properties of the prompt templates\<close>
















section \<open>Properties of the preprocessing\<close>









section \<open>Properties of the fine-tuning component\<close>


















text \<open>
  While \<open>model\<close> is not bound, \<open>get_model_tokenizer\<close> cannot return; what
  \<open>fine_tune_model\<close> does after the records are written depends on it alone.
\<close>

lemma get_model_tokenizer_unbound:
  "model fr = None \<Longrightarrow> \<exists>e. get_model_tokenizer lib fr name gc = Inl e"
  by (auto simp: get_model_tokenizer_def read_var_def split: sum.splits)

lemma get_model_tokenizer_NameError:
  "model fr = None \<Longrightarrow> load_tokenizer lib name = Inr t \<Longrightarrow> load_model lib name gc = Inr m \<Longrightarrow>
     get_model_tokenizer lib fr name gc = Inl (NameError ''model'')"
  by (simp add: get_model_tokenizer_def read_var_def)

lemma fine_tune_model_after_save:
  "save_training_prompts lib dataset_path w = (Inr (), w') \<Longrightarrow>
     fine_tune_model lib dataset_path model_name model_artifact_path w =
       (case get_model_tokenizer lib \<lparr>model = None, tokenizer = None\<rparr> model_name True of
          Inl e \<Rightarrow> (Inl e, w')
        | Inr (m, t) \<Rightarrow> train_and_save lib \<lparr>model = Some m, tokenizer = Some t\<rparr> w')"
  by (simp add: fine_tune_model_def and_then_def pure_call_def split: sum.splits prod.splits)

lemma fine_tune_model_save_fails:
  "save_training_prompts lib dataset_path w = (Inl e, w') \<Longrightarrow>
     fine_tune_model lib dataset_path model_name model_artifact_path w = (Inl e, w')"
  by (simp add: fine_tune_model_def and_then_def)

text \<open>
  C3. For every library, every input and every state of the world \<open>fine_tune_model\<close>
  ends with an exception. When the records have been written and the library has loaded
  the tokenizer and the model, the call of \<open>get_model_tokenizer\<close> raises NameError for
  \<open>model\<close>, and \<open>fine_tune_model\<close> ends with this exception in the world the writing of
  the records left: nothing was trained or saved. When writing the records, loading the
  tokenizer or loading the model raises, \<open>fine_tune_model\<close> ends with that exception.
\<close>

theorem fine_tune_model_raises_NameError:
  fixes lib :: "('v, 'mdl, 'tok, 'x world_scheme) library"
  shows "(\<exists>e. fst (fine_tune_model lib dataset_path model_name model_artifact_path w) = Inl e) \<and>
   (\<forall>w' t m.
      save_training_prompts lib dataset_path w = (Inr (), w') \<and>
      lib_tokenizer_from_pretrained lib model_name = Inr t \<and>
      lib_model_from_pretrained lib model_name True False = Inr m \<longrightarrow>
        get_model_tokenizer lib \<lparr>model = None, tokenizer = None\<rparr> model_name True =
          Inl (NameError ''model'') \<and>
        fine_tune_model lib dataset_path model_name model_artifact_path w =
          (Inl (NameError ''model''), w')) \<and>
   (\<forall>w' e.
      save_training_prompts lib dataset_path w = (Inl e, w') \<longrightarrow>
        fine_tune_model lib dataset_path model_name model_artifact_path w = (Inl e, w')) \<and>
   (\<forall>w' e.
      save_training_prompts lib dataset_path w = (Inr (), w') \<and>
      lib_tokenizer_from_pretrained lib model_name = Inl e \<longrightarrow>
        fine_tune_model lib dataset_path model_name model_artifact_path w = (Inl e, w')) \<and>
   (\<forall>w' t e.
      save_training_prompts lib dataset_path w = (Inr (), w') \<and>
      lib_tokenizer_from_pretrained lib model_name = Inr t \<and>
      lib_model_from_pretrained lib model_name True False = Inl e \<longrightarrow>
        fine_tune_model lib dataset_path model_name model_artifact_path w = (Inl e, w'))"
proof (intro conjI allI impI)
  let ?fr = "\<lparr>model = None, tokenizer = None\<rparr> :: ('mdl, 'tok) frame"
  obtain r w1 where s: "save_training_prompts lib dataset_path w = (r, w1)"
    by (cases "save_training_prompts lib dataset_path w")
  show "\<exists>e. fst (fine_tune_model lib dataset_path model_name model_artifact_path w) = Inl e"
  proof (cases r)
    case (Inl e)
    with s show ?thesis using fine_tune_model_save_fails[of lib dataset_path w e w1] by simp
  next
    case (Inr u)
    obtain e where "get_model_tokenizer lib ?fr model_name True = Inl e"
      using get_model_tokenizer_unbound[of ?fr lib model_name True] by auto
    with s Inr show ?thesis
      using fine_tune_model_after_save[of lib dataset_path w w1 model_name model_artifact_path] by simp
  qed
next
  fix w' t m
  assume h: "save_training_prompts lib dataset_path w = (Inr (), w') \<and>
      lib_tokenizer_from_pretrained lib model_name = Inr t \<and>
      lib_model_from_pretrained lib model_name True False = Inr m"
  let ?fr = "\<lparr>model = None, tokenizer = None\<rparr> :: ('mdl, 'tok) frame"
  from h have lt: "\<exists>t'. load_tokenizer lib model_name = Inr t'"
    by (simp add: load_tokenizer_def)
  from h have lm: "load_model lib model_name True = Inr m"
    by (simp add: load_model_def use_cache_for_def)
  from lt lm show g: "get_model_tokenizer lib ?fr model_name True = Inl (NameError ''model'')"
    using get_model_tokenizer_NameError[of ?fr lib model_name _ True m] by auto
  from h g show "fine_tune_model lib dataset_path model_name model_artifact_path w =
          (Inl (NameError ''model''), w')"
    using fine_tune_model_after_save[of lib dataset_path w w' model_name model_artifact_path] by simp
next
  fix w' e
  assume "save_training_prompts lib dataset_path w = (Inl e, w')"
  then show "fine_tune_model lib dataset_path model_name model_artifact_path w = (Inl e, w')"
    by (rule fine_tune_model_save_fails)
next
  fix w' e
  assume h: "save_training_prompts lib dataset_path w = (Inr (), w') \<and>
      lib_tokenizer_from_pretrained lib model_name = Inl e"
  let ?fr = "\<lparr>model = None, tokenizer = None\<rparr> :: ('mdl, 'tok) frame"
  from h have "get_model_tokenizer lib ?fr model_name True = Inl e"
    by (simp add: get_model_tokenizer_def load_tokenizer_def)
  with h show "fine_tune_model lib dataset_path model_name model_artifact_path w = (Inl e, w')"
    using fine_tune_model_after_save[of lib dataset_path w w' model_name model_artifact_path] by simp
next
  fix w' t e
  assume h: "save_training_prompts lib dataset_path w = (Inr (), w') \<and>
      lib_tokenizer_from_pretrained lib model_name = Inr t \<and>
      lib_model_from_pretrained lib model_name True False = Inl e"
  let ?fr = "\<lparr>model = None, tokenizer = None\<rparr> :: ('mdl, 'tok) frame"
  from h have "get_model_tokenizer lib ?fr model_name True = Inl e"
    by (simp add: get_model_tokenizer_def load_tokenizer_def load_model_def use_cache_for_def)
  with h show "fine_tune_model lib dataset_path model_name model_artifact_path w = (Inl e, w')"
    using fine_tune_model_after_save[of lib dataset_path w w' model_name model_artifact_path] by simp
qed

text \<open>Running the first lines with the example library.\<close>

lemmas run_defs = save_training_prompts_def json_dump_def and_then_def reading_def pure_call_def
  Let_def os_path_join_def to_dict_records_def py_dict_def iterencode_list_def iterencode_dict_def
  write_then_def quoted_def

lemma example_save:
  "save_training_prompts example_library ''data.parquet'' empty_world =
     (Inr (), \<lparr>files = [''./train_data/train_queries.json'' \<mapsto>
        json_array quoted (\<lambda>v. fst (example_json_value v))
          [[(''instruction'', Text ''Add''), (''response'', Text ''4'')],
           [(''instruction'', Text ''Sub''), (''response'', Text ''0'')]]]\<rparr>)"
  by (simp add: run_defs example_library_def example_dataframe_def empty_world_def
      json_array_def json_object_def)

theorem fine_tune_model_NameError_witness:
  "\<exists>w'. save_training_prompts example_library ''data.parquet'' empty_world = (Inr (), w') \<and>
      lib_tokenizer_from_pretrained example_library ''dolly'' = Inr 0 \<and>
      lib_model_from_pretrained example_library ''dolly'' True False = Inr 0 \<and>
      get_model_tokenizer example_library \<lparr>model = None, tokenizer = None\<rparr> ''dolly'' True =
        Inl (NameError ''model'') \<and>
      fine_tune_model example_library ''data.parquet'' ''dolly'' ''out'' empty_world =
        (Inl (NameError ''model''), w')"
proof -
  obtain w' where
    s: "save_training_prompts example_library ''data.parquet'' empty_world = (Inr (), w')"
    using example_save by blast
  have t: "lib_tokenizer_from_pretrained example_library ''dolly'' = Inr 0"
    by (simp add: example_library_def)
  have m: "lib_model_from_pretrained example_library ''dolly'' True False = Inr 0"
    by (simp add: example_library_def)
  from fine_tune_model_raises_NameError[of example_library "''data.parquet''" "''dolly''" "''out''" empty_world]
    s t m
  show ?thesis by blast
qed

text \<open>
  With a model name the hub does not know, loading the tokenizer raises and
  \<open>get_model_tokenizer\<close> ends with that exception, not with NameError.
\<close>

theorem fine_tune_model_OSError_counterexample:
  "lib_tokenizer_from_pretrained unknown_model_library ''no-such-model'' = Inl (LibraryError ''OSError'') \<and>
   get_model_tokenizer unknown_model_library \<lparr>model = None, tokenizer = None\<rparr> ''no-such-model'' True =
     Inl (LibraryError ''OSError'') \<and>
   fst (fine_tune_model unknown_model_library ''data.parquet'' ''no-such-model'' ''out'' empty_world) =
     Inl (LibraryError ''OSError'')"
proof -
  have t: "lib_tokenizer_from_pretrained unknown_model_library ''no-such-model'' = Inl (LibraryError ''OSError'')"
    by (simp add: unknown_model_library_def)
  have g: "get_model_tokenizer unknown_model_library \<lparr>model = None, tokenizer = None\<rparr> ''no-such-model'' True =
     Inl (LibraryError ''OSError'')"
    by (simp add: get_model_tokenizer_def load_tokenizer_def t)
  have "\<exists>w'. save_training_prompts unknown_model_library ''data.parquet'' empty_world = (Inr (), w')"
    by (simp add: run_defs unknown_model_library_def example_library_def example_dataframe_def)
  then obtain w' where
    s: "save_training_prompts unknown_model_library ''data.parquet'' empty_world = (Inr (), w')" by blast
  from fine_tune_model_after_save[OF s, of "''no-such-model''" "''out''"] g t show ?thesis by simp
qed








section \<open>The configuration of training\<close>

text \<open>
  C9. The training arguments turn gradient checkpointing on and set both batch sizes per
  device to 4, but no run hands them to the trainer: with a library in which every call
  returns and whose \<open>train\<close> leaves a checkpoint file, \<open>fine_tune_model\<close> ends with
  NameError for \<open>model\<close> and there is no checkpoint file.
\<close>

theorem fine_tune_model_never_trains:
  "gradient_checkpointing training_args = True \<and>
   per_device_train_batch_size training_args = 4 \<and>
   per_device_eval_batch_size training_args = 4 \<and>
   (\<forall>tr w. files (snd (lib_train example_library tr w)) ''./model_dir/checkpoint'' = Some ''step'') \<and>
   fst (fine_tune_model example_library ''data.parquet'' ''dolly'' ''out'' empty_world) =
     Inl (NameError ''model'') \<and>
   files (snd (fine_tune_model example_library ''data.parquet'' ''dolly'' ''out'' empty_world))
     ''./model_dir/checkpoint'' = None"
proof -
  have g: "get_model_tokenizer example_library \<lparr>model = None, tokenizer = None\<rparr> ''dolly'' True =
      Inl (NameError ''model'')"
    by (simp add: get_model_tokenizer_def load_tokenizer_def load_model_def read_var_def
        example_library_def)
  have run: "fine_tune_model example_library ''data.parquet'' ''dolly'' ''out'' empty_world =
      (Inl (NameError ''model''),
       \<lparr>files = [''./train_data/train_queries.json'' \<mapsto>
        json_array quoted (\<lambda>v. fst (example_json_value v))
          [[(''instruction'', Text ''Add''), (''response'', Text ''4'')],
           [(''instruction'', Text ''Sub''), (''response'', Text ''0'')]]]\<rparr>)"
    using fine_tune_model_after_save[OF example_save, of "''dolly''" "''out''"] g by simp
  have cfg: "gradient_checkpointing training_args = True \<and>
      per_device_train_batch_size training_args = 4 \<and>
      per_device_eval_batch_size training_args = 4"
    by (simp add: training_args_def)
  have tr: "\<forall>tr w. files (snd (lib_train example_library tr w)) ''./model_dir/checkpoint'' = Some ''step''"
    by (simp add: example_library_def)
  have out: "fst (fine_tune_model example_library ''data.parquet'' ''dolly'' ''out'' empty_world) =
      Inl (NameError ''model'') \<and>
    files (snd (fine_tune_model example_library ''data.parquet'' ''dolly'' ''out'' empty_world))
      ''./model_dir/checkpoint'' = None"
    unfolding run by simp
  from cfg tr out show ?thesis by blast
qed


section \<open>Properties of the pipeline definition\<close>


text \<open>
  C2. Called with its two parameters, the pipeline function makes exactly four tasks:
  data processing, fine-tuning, model upload and serving, in this order. The fine-tuning
  task is put after the data-processing task and takes its output as first argument, the
  upload task is put after the fine-tuning task, and the serving task after the upload
  task; no task waits for any other task than the one before it.
\<close>

theorem pipeline_is_linear:
  "map component (pipeline (PipelineParam p) (PipelineParam j)) =
     [''process_data'', ''fine_tune_model'', ''upload_container'', ''serve_model_component''] \<and>
   map display_name (pipeline (PipelineParam p) (PipelineParam j)) =
     [Some ''Data Processing'', Some ''Dolly Fine Tuning'', Some ''Model_Upload'', Some ''Serve_Model''] \<and>
   map dependent_names (pipeline (PipelineParam p) (PipelineParam j)) =
     [[], [''process_data''], [''fine_tune_model''], [''upload_container'']] \<and>
   arguments (pipeline (PipelineParam p) (PipelineParam j) ! 1) =
     [TaskOutput ''process_data'', Constant ''original_model_name'', Constant ''save_model_bucket_name''] \<and>
   map upstream_tasks (pipeline (PipelineParam p) (PipelineParam j)) =
     [[], [''process_data''], [''fine_tune_model''], [''upload_container'']]"
  by (simp add: pipeline_def Let_def new_task_def after_def set_display_name_def
      set_cpu_request_def set_memory_limit_def task_output_def upstream_tasks_def)

text \<open>
  C7. Of the four tasks only the fine-tuning task has a CPU request, \<open>8\<close>, and a memory
  limit, \<open>64G\<close>.
\<close>

theorem pipeline_resources:
  "map component (pipeline project_id job_id) =
     [''process_data'', ''fine_tune_model'', ''upload_container'', ''serve_model_component''] \<and>
   map cpu_request (pipeline project_id job_id) = [None, Some ''8'', None, None] \<and>
   map memory_limit (pipeline project_id job_id) = [None, Some ''64G'', None, None]"
  by (simp add: pipeline_def Let_def new_task_def after_def set_display_name_def
      set_cpu_request_def set_memory_limit_def task_output_def)






end
